theory Spec2Isabelle
  imports Main
begin

section \<open>git2codetour: the diff parser and the step synthesizer of src/index.ts\<close>

text \<open>
  The development embeds the synchronous core of \<^verbatim>\<open>src/index.ts\<close>: the line scan of
  \<^verbatim>\<open>generateCodeTour\<close> (lines 53 to 142), \<^verbatim>\<open>createSteps\<close>,
  \<^verbatim>\<open>generateStepDescription\<close> and \<^verbatim>\<open>getLanguageFromFileName\<close>. The calls to git
  and the assembly of the tour's title are outside of it.

  Conventions. A JavaScript string is a \<^typ>\<open>string\<close>; one \<^typ>\<open>char\<close> stands for one
  UTF-16 code unit below 256, so \<^const>\<open>length\<close> is \<^verbatim>\<open>.length\<close>. A JavaScript number
  that holds a line number or a character offset is an \<^typ>\<open>int\<close>, and \<open>+\<close> and \<open>-\<close> on
  it are the exact operations. The program computes with doubles, which agree with
  the integers only up to \<open>2 ^ 53\<close> (\<open>exactNumber\<close> below): beyond that bound the model
  does not describe the program, and every theorem that depends on the arithmetic
  states the bound as a hypothesis. An optional property of an object is an
  \<^typ>\<open>'a option\<close>, \<^const>\<open>None\<close> when the property is absent.
\<close>

subsection \<open>The string primitives of the runtime\<close>

text \<open>\<^verbatim>\<open>s.startsWith(p)\<close>.\<close>

fun startsWith :: "string \<Rightarrow> string \<Rightarrow> bool" where
  "startsWith s [] = True"
| "startsWith [] (p # ps) = False"
| "startsWith (c # cs) (p # ps) = (c = p \<and> startsWith cs ps)"

text \<open>\<^verbatim>\<open>xs.join(sep)\<close>.\<close>

fun join :: "string list \<Rightarrow> string \<Rightarrow> string" where
  "join [] sep = []"
| "join [x] sep = x"
| "join (x # y # ys) sep = x @ sep @ join (y # ys) sep"

text \<open>\<^verbatim>\<open>s.substring(n)\<close> for a natural number \<open>n\<close>.\<close>

definition substring :: "string \<Rightarrow> nat \<Rightarrow> string" where
  "substring s n = drop n s"

text \<open>\<^verbatim>\<open>s.slice(a, b)\<close> for \<open>0 \<le> a\<close> and \<open>0 \<le> b\<close>.\<close>

definition slice :: "string \<Rightarrow> int \<Rightarrow> int \<Rightarrow> string" where
  "slice s a b = take (nat (b - a)) (drop (nat a) s)"

text \<open>
  \<^verbatim>\<open>s.split(sep)\<close> for a separator of one character: the pieces between the separators,
  so a text that ends with the separator has an empty last piece, and the empty text
  has the one piece \<open>''''\<close>.
\<close>

fun split :: "string \<Rightarrow> char \<Rightarrow> string list" where
  "split [] sep = [[]]"
| "split (c # cs) sep =
     (if c = sep then [] # split cs sep
      else (case split cs sep of
              [] \<Rightarrow> [[c]]
            | l # ls \<Rightarrow> (c # l) # ls))"

text \<open>
  \<^verbatim>\<open>s.trim()\<close>: white space and line terminators are removed at both ends. Below 256
  these are tab, line feed, vertical tab, form feed, carriage return, space and the
  no-break space.
\<close>

definition isWhiteSpace :: "char \<Rightarrow> bool" where
  "isWhiteSpace c \<longleftrightarrow>
     c \<in> set [CHR 0x09, CHR 0x0A, CHR 0x0B, CHR 0x0C, CHR 0x0D, CHR 0x20, CHR 0xA0]"

definition trim :: "string \<Rightarrow> string" where
  "trim s = rev (dropWhile isWhiteSpace (rev (dropWhile isWhiteSpace s)))"

text \<open>
  \<^verbatim>\<open>s.toLowerCase()\<close>: below 256 the letters with a lower case are \<open>A\<close> to \<open>Z\<close> and
  the Latin-1 capitals \<open>0xC0\<close> to \<open>0xDE\<close> without the multiplication sign \<open>0xD7\<close>; each
  is 32 below its lower case.
\<close>

definition toLowerCaseChar :: "char \<Rightarrow> char" where
  "toLowerCaseChar c =
     (let n = (of_char c :: nat)
      in if (65 \<le> n \<and> n \<le> 90) \<or> (192 \<le> n \<and> n \<le> 222 \<and> n \<noteq> 215)
         then char_of (n + 32) else c)"

definition toLowerCase :: "string \<Rightarrow> string" where
  "toLowerCase s = map toLowerCaseChar s"

text \<open>
  The range in which the numbers of the program are exact: every integer from
  \<open>- 2 ^ 53\<close> to \<open>2 ^ 53\<close> is a double, and the sum or difference of two such doubles is
  computed without rounding when its exact value lies in the range again. Outside of
  it the program rounds: \<^verbatim>\<open>2 ** 53 + 1\<close> is \<^verbatim>\<open>2 ** 53\<close>.
\<close>

definition exactNumber :: "int \<Rightarrow> bool" where
  "exactNumber x \<longleftrightarrow> - (2 ^ 53) \<le> x \<and> x \<le> 2 ^ 53"

text \<open>
  The regular expression class \<^verbatim>\<open>\d\<close> and \<^verbatim>\<open>parseInt(ds, 10)\<close> on a run of digits. The
  model gives the decimal value of the run; the program gives the same number while
  that value is an \<open>exactNumber\<close>, the nearest double above the bound, and \<^verbatim>\<open>Infinity\<close>
  for a run of more than 308 digits.
\<close>

definition isDigit :: "char \<Rightarrow> bool" where
  "isDigit c \<longleftrightarrow> c \<in> set ''0123456789''"

definition parseInt :: "string \<Rightarrow> int" where
  "parseInt ds = foldl (\<lambda>acc c. 10 * acc + (int (of_char c) - 48)) 0 ds"

text \<open>The line feed and the fence of three backquotes of the templates.\<close>

definition NL :: string where
  "NL = [CHR 0x0A]"

definition fence :: string where
  "fence = [CHR 0x60, CHR 0x60, CHR 0x60]"

subsection \<open>\<^verbatim>\<open>path.extname\<close>\<close>

text \<open>
  \<^verbatim>\<open>path.extname\<close> belongs to the Node.js runtime, not to the repository. The model
  follows the POSIX implementation of the runtime: one scan of the path from its last
  character to its first, which skips the separators at the end, stops at the first
  separator before the last component, and tracks the last dot of that component
  (\<open>startDot\<close>), the end of the component (\<open>end\<close>) and what stands before the dot
  (\<open>preDotState\<close>).
\<close>

record extname_state =
  startDot :: int
  startPart :: int
  end' :: int
  matchedSlash :: bool
  preDotState :: int

text \<open>
  The argument list holds \<open>path[i], path[i-1], \<dots>, path[0]\<close>: its head is the character
  at the loop index \<open>i\<close>, and \<open>i\<close> is the length of its tail. Returning without a
  recursive call is the \<^verbatim>\<open>break\<close>.
\<close>

fun extname_loop :: "string \<Rightarrow> extname_state \<Rightarrow> extname_state" where
  "extname_loop [] st = st"
| "extname_loop (code # below) st =
     (let i = int (length below) in
      if code = CHR ''/'' then
        (if \<not> matchedSlash st then st\<lparr>startPart := i + 1\<rparr>
         else extname_loop below st)
      else
        (let st1 = (if end' st = - 1 then st\<lparr>end' := i + 1, matchedSlash := False\<rparr> else st);
             st2 = (if code = CHR ''.'' then
                      (if startDot st1 = - 1 then st1\<lparr>startDot := i\<rparr>
                       else if preDotState st1 \<noteq> 1 then st1\<lparr>preDotState := 1\<rparr>
                       else st1)
                    else if startDot st1 \<noteq> - 1 then st1\<lparr>preDotState := - 1\<rparr>
                    else st1)
         in extname_loop below st2))"

definition extname :: "string \<Rightarrow> string" where
  "extname path =
     (let st = extname_loop (rev path)
                 \<lparr>startDot = - 1, startPart = 0, end' = - 1, matchedSlash = True,
                  preDotState = 0\<rparr>
      in if startDot st = - 1 \<or> end' st = - 1 \<or> preDotState st = 0 \<or>
            (preDotState st = 1 \<and> startDot st = end' st - 1 \<and>
             startDot st = startPart st + 1)
         then []
         else slice path (startDot st) (end' st))"

subsection \<open>The language classifier\<close>

text \<open>The object literal \<^verbatim>\<open>languageMap\<close> of \<^verbatim>\<open>getLanguageFromFileName\<close>, in its order.\<close>

definition languageMap :: "(string \<times> string) list" where
  "languageMap =
     [(''.js'', ''javascript''), (''.jsx'', ''jsx''), (''.ts'', ''typescript''),
      (''.tsx'', ''tsx''), (''.py'', ''python''), (''.rb'', ''ruby''),
      (''.java'', ''java''), (''.c'', ''c''), (''.cpp'', ''cpp''), (''.cc'', ''cpp''),
      (''.cxx'', ''cpp''), (''.cs'', ''csharp''), (''.php'', ''php''), (''.go'', ''go''),
      (''.rs'', ''rust''), (''.swift'', ''swift''), (''.kt'', ''kotlin''),
      (''.scala'', ''scala''), (''.sh'', ''bash''), (''.bash'', ''bash''),
      (''.zsh'', ''bash''), (''.fish'', ''fish''), (''.ps1'', ''powershell''),
      (''.r'', ''r''), (''.R'', ''r''), (''.sql'', ''sql''), (''.html'', ''html''),
      (''.htm'', ''html''), (''.xml'', ''xml''), (''.css'', ''css''),
      (''.scss'', ''scss''), (''.sass'', ''sass''), (''.less'', ''less''),
      (''.json'', ''json''), (''.yaml'', ''yaml''), (''.yml'', ''yaml''),
      (''.toml'', ''toml''), (''.md'', ''markdown''), (''.txt'', ''text''),
      (''.bicep'', ''bicep'')]"

text \<open>
  \<^verbatim>\<open>languageMap[ext] || 'text'\<close>: the lookup of an own property, and \<^verbatim>\<open>||\<close> takes its
  right operand when the left one is absent or the empty string. The properties that
  an object literal inherits (\<^verbatim>\<open>constructor\<close>, \<^verbatim>\<open>toString\<close>, \<dots>) are not in the model:
  none of their names is empty or starts with a dot, and every result of
  \<^const>\<open>extname\<close> is one or the other (lemma \<open>extname_shape\<close> below).
\<close>

definition getLanguageFromFileName :: "string \<Rightarrow> string" where
  "getLanguageFromFileName fileName =
     (let ext = toLowerCase (extname fileName)
      in case map_of languageMap ext of
           None \<Rightarrow> ''text''
         | Some v \<Rightarrow> if v = [] then ''text'' else v)"

subsection \<open>Tour steps\<close>

text \<open>The interface \<^verbatim>\<open>CodeTourStep\<close> and the two object shapes nested in it.\<close>

record Position =
  pos_line :: int
  pos_character :: int

record Selection =
  sel_start :: Position
  sel_end :: Position

record CodeTourStep =
  file' :: "string option"
  directory :: "string option"
  line :: "int option"
  description :: string
  title :: "string option"
  selection :: "Selection option"

subsection \<open>The step synthesizer\<close>

definition generateStepDescription ::
  "string list \<Rightarrow> string list \<Rightarrow> string \<Rightarrow> bool \<Rightarrow> string" where
  "generateStepDescription addedLines deletedLines fileName isNewFile =
     (let language = getLanguageFromFileName fileName in
      if isNewFile then
        trim (''Create a new file:'' @ NL @ NL @
              ''>> touch '' @ fileName @ NL @ NL @
              (if addedLines \<noteq> [] then
                 ''Then add the following content:'' @ NL @ NL @
                 fence @ language @ NL @ join addedLines NL @ NL @ fence
               else []))
      else if deletedLines \<noteq> [] \<and> addedLines \<noteq> [] then
        trim (''Replace with:'' @ NL @ NL @ ''----'' @ NL @ NL @
              fence @ language @ NL @ join addedLines NL @ NL @ fence)
      else if deletedLines \<noteq> [] then
        trim ''Remove the selected code''
      else if addedLines \<noteq> [] then
        trim (''Add:'' @ NL @ NL @
              fence @ language @ NL @ join addedLines NL @ NL @ fence)
      else trim [])"

text \<open>
  In \<open>createSteps\<close> the end line \<^verbatim>\<open>lineNumber + deletedLines.length - 1\<close> is the exact
  sum; it is the program's value while \<open>lineNumber\<close> and
  \<open>lineNumber + deletedLines.length\<close> are \<open>exactNumber\<close>s.
\<close>

definition createSteps ::
  "string list \<Rightarrow> string list \<Rightarrow> string \<Rightarrow> int \<Rightarrow> bool \<Rightarrow> CodeTourStep list" where
  "createSteps addedLines deletedLines fileName lineNumber isNewFile =
     (if isNewFile \<and> addedLines \<noteq> [] then
        [\<lparr>file' = None, directory = None, line = None,
          description = ''Create an empty file:'' @ NL @ NL @ ''For Linux/Mac:'' @ NL @
                        ''>> touch '' @ fileName @ NL @ NL @
                        ''For Windows: >> type nul > '' @ fileName,
          title = Some (''Create '' @ fileName), selection = None\<rparr>,
         \<lparr>file' = Some fileName, directory = None, line = Some 1,
          description = ''Add the following content:'' @ NL @ NL @
                        fence @ getLanguageFromFileName fileName @ NL @
                        join addedLines NL @ NL @ fence,
          title = Some (''Add content to '' @ fileName), selection = None\<rparr>]
      else
        (let step = \<lparr>file' = None, directory = None, line = None,
                     description = generateStepDescription addedLines deletedLines
                                     fileName isNewFile,
                     title = None, selection = None\<rparr>
         in if isNewFile then [step\<lparr>title := Some (''Create '' @ fileName)\<rparr>]
            else
              (let step1 = step\<lparr>file' := Some fileName\<rparr>
               in if deletedLines \<noteq> [] then
                    (let endLine = lineNumber + int (length deletedLines) - 1
                     in [step1\<lparr>selection := Some
                          \<lparr>sel_start = \<lparr>pos_line = lineNumber, pos_character = 1\<rparr>,
                           sel_end = \<lparr>pos_line = endLine,
                                      pos_character =
                                        int (length (last deletedLines)) + 1\<rparr>\<rparr>\<rparr>])
                  else [step1\<lparr>line := Some lineNumber\<rparr>])))"

subsection \<open>The two regular expressions of the parser\<close>

text \<open>
  \<^verbatim>\<open>line.match(re)\<close> without the global flag searches the leftmost position of the line
  where \<^verbatim>\<open>re\<close> matches. \<open>regex_search m\<close> tries \<open>m\<close> at every suffix of the line from the
  left, the empty suffix included; \<open>m\<close> is the match of the expression anchored at the
  head of its argument and returns capture group 2, the only group the program reads.
\<close>

fun regex_search :: "(string \<Rightarrow> 'a option) \<Rightarrow> string \<Rightarrow> 'a option" where
  "regex_search m [] = m []"
| "regex_search m (c # cs) =
     (case m (c # cs) of
        Some r \<Rightarrow> Some r
      | None \<Rightarrow> regex_search m cs)"

text \<open>
  The dot of a regular expression matches every code unit except a line terminator
  (below 256: line feed and carriage return).
\<close>

definition isLineTerminator :: "char \<Rightarrow> bool" where
  "isLineTerminator c \<longleftrightarrow> c \<in> set [CHR 0x0A, CHR 0x0D]"

text \<open>
  \<^verbatim>\<open>/diff --git a\/(.*) b\/(.*)/\<close> at a fixed position. After the literal
  \<^verbatim>\<open>diff --git a/\<close>, group 1 is greedy: it first takes the whole run of characters
  that are not line terminators and gives characters back until \<^verbatim>\<open> b/\<close> follows, so
  the \<^verbatim>\<open> b/\<close> that is matched is the last one of that run. Group 2 is greedy and
  nothing follows it: it is the rest of the run.
\<close>

fun after_last_b :: "string \<Rightarrow> string option" where
  "after_last_b [] = None"
| "after_last_b (c # cs) =
     (case after_last_b cs of
        Some r \<Rightarrow> Some r
      | None \<Rightarrow> if startsWith (c # cs) '' b/'' then Some (drop 3 (c # cs)) else None)"

definition fileHeader_match_at :: "string \<Rightarrow> string option" where
  "fileHeader_match_at s =
     (if startsWith s ''diff --git a/''
      then after_last_b (takeWhile (\<lambda>c. \<not> isLineTerminator c) (drop 13 s))
      else None)"

text \<open>
  \<^verbatim>\<open>/@@ -(\d+)(?:,\d+)? \+(\d+)(?:,\d+)? @@/\<close> at a fixed position. Each \<^verbatim>\<open>\d+\<close> is
  greedy and is followed by a comma or a space, never by a digit, so giving digits
  back cannot help and the run of digits taken is the longest one. The optional group
  \<^verbatim>\<open>(?:,\d+)?\<close> is taken when a comma and a digit follow; leaving it out instead would
  need a space where the comma is. The match is therefore deterministic.
\<close>

definition skip_optional_length :: "string \<Rightarrow> string" where
  "skip_optional_length s =
     (case s of
        [] \<Rightarrow> s
      | c # cs \<Rightarrow> if c = CHR '','' \<and> takeWhile isDigit cs \<noteq> [] then dropWhile isDigit cs
                  else s)"

definition hunkHeader_match_at :: "string \<Rightarrow> string option" where
  "hunkHeader_match_at s =
     (if startsWith s ''@@ -'' then
        (let s1 = drop 4 s in
         if takeWhile isDigit s1 = [] then None
         else
           (let s2 = skip_optional_length (dropWhile isDigit s1) in
            if startsWith s2 '' +'' then
              (let s3 = drop 2 s2; dstStart = takeWhile isDigit s3 in
               if dstStart = [] then None
               else
                 (let s4 = skip_optional_length (dropWhile isDigit s3) in
                  if startsWith s4 '' @@'' then Some dstStart else None))
            else None))
      else None)"

subsection \<open>The diff parser\<close>

text \<open>
  The local variables of \<^verbatim>\<open>generateCodeTour\<close> that the line scan reads and writes
  (lines 50 to 60), as one record that the loop body takes and returns.
\<close>

record parser_state =
  steps :: "CodeTourStep list"
  currentFile :: string
  currentLine :: int
  changeStartLine :: int
  addedLines :: "string list"
  deletedLines :: "string list"
  inHunk :: bool
  isNewFile :: bool

definition initial_state :: parser_state where
  "initial_state =
     \<lparr>steps = [], currentFile = [], currentLine = 0, changeStartLine = 0,
      addedLines = [], deletedLines = [], inHunk = False, isNewFile = False\<rparr>"

text \<open>
  Lines 66 to 84: the file header. A string is truthy when it is not empty, which is
  the test \<^verbatim>\<open>currentFile &&\<close>.
\<close>

definition fileHeader_block :: "parser_state \<Rightarrow> string \<Rightarrow> parser_state" where
  "fileHeader_block s ln =
     (if startsWith ln ''diff --git'' then
        (let s1 = (if currentFile s \<noteq> [] \<and> (addedLines s \<noteq> [] \<or> deletedLines s \<noteq> [])
                   then s\<lparr>steps := steps s @
                           createSteps (addedLines s) (deletedLines s) (currentFile s)
                             (changeStartLine s) (isNewFile s)\<rparr>
                   else s);
             s2 = (case regex_search fileHeader_match_at ln of
                     Some dst \<Rightarrow> s1\<lparr>currentFile := dst\<rparr>
                   | None \<Rightarrow> s1)
         in s2\<lparr>addedLines := [], deletedLines := [], currentLine := 0,
               changeStartLine := 0, inHunk := False, isNewFile := False\<rparr>)
      else s)"

text \<open>Lines 87 to 89: the marker of a file that is new.\<close>

definition newFile_block :: "parser_state \<Rightarrow> string \<Rightarrow> parser_state" where
  "newFile_block s ln =
     (if startsWith ln ''--- /dev/null'' then s\<lparr>isNewFile := True\<rparr> else s)"

text \<open>Lines 93 to 107: what is done for a line that starts with \<^verbatim>\<open>@@\<close>.\<close>

definition hunkHeader_block :: "parser_state \<Rightarrow> string \<Rightarrow> parser_state" where
  "hunkHeader_block s ln =
     (let s1 = (if addedLines s \<noteq> [] \<or> deletedLines s \<noteq> []
                then s\<lparr>steps := steps s @
                        createSteps (addedLines s) (deletedLines s) (currentFile s)
                          (changeStartLine s) (isNewFile s),
                      addedLines := [], deletedLines := []\<rparr>
                else s);
          s2 = (case regex_search hunkHeader_match_at ln of
                  Some dstStart \<Rightarrow> s1\<lparr>currentLine := parseInt dstStart\<rparr>
                | None \<Rightarrow> s1)
      in s2\<lparr>changeStartLine := 0, inHunk := True\<rparr>)"

text \<open>
  Lines 112 to 134: a line inside a hunk. \<^verbatim>\<open>currentLine++\<close> is the exact successor; it
  is the program's value while the cursor and its successor are \<open>exactNumber\<close>s.
\<close>

definition hunkBody_block :: "parser_state \<Rightarrow> string \<Rightarrow> parser_state" where
  "hunkBody_block s ln =
     (if startsWith ln ''+'' \<and> \<not> startsWith ln ''+++'' then
        (let s1 = (if changeStartLine s = 0 then s\<lparr>changeStartLine := currentLine s\<rparr>
                   else s)
         in s1\<lparr>addedLines := addedLines s1 @ [substring ln 1],
               currentLine := currentLine s1 + 1\<rparr>)
      else if startsWith ln ''-'' \<and> \<not> startsWith ln ''---'' then
        (let s1 = (if changeStartLine s = 0 then s\<lparr>changeStartLine := currentLine s\<rparr>
                   else s)
         in s1\<lparr>deletedLines := deletedLines s1 @ [substring ln 1]\<rparr>)
      else if \<not> startsWith ln [CHR 0x5C] then
        (let s1 = (if addedLines s \<noteq> [] \<or> deletedLines s \<noteq> []
                   then s\<lparr>steps := steps s @
                           createSteps (addedLines s) (deletedLines s) (currentFile s)
                             (if changeStartLine s > 0 then changeStartLine s
                              else currentLine s)
                             (isNewFile s),
                         addedLines := [], deletedLines := [], changeStartLine := 0\<rparr>
                   else s)
         in s1\<lparr>currentLine := currentLine s1 + 1\<rparr>)
      else s)"

text \<open>
  Lines 63 to 135: the body of the loop for one line. The \<^verbatim>\<open>continue\<close> of line 107
  is the first branch of the conditional.
\<close>

definition loop_body :: "parser_state \<Rightarrow> string \<Rightarrow> parser_state" where
  "loop_body s ln =
     (let s1 = fileHeader_block s ln;
          s2 = newFile_block s1 ln
      in if startsWith ln ''@@'' then hunkHeader_block s2 ln
         else if inHunk s2 then hunkBody_block s2 ln
         else s2)"

text \<open>Lines 139 to 142: the flush after the last line; the result is the step list.\<close>

definition final_flush :: "parser_state \<Rightarrow> CodeTourStep list" where
  "final_flush s =
     (if currentFile s \<noteq> [] \<and> (addedLines s \<noteq> [] \<or> deletedLines s \<noteq> [])
      then steps s @
           createSteps (addedLines s) (deletedLines s) (currentFile s)
             (if changeStartLine s > 0 then changeStartLine s else 1) (isNewFile s)
      else steps s)"

text \<open>
  The scan of lines 53 to 142: the diff text is split at line feeds, the loop body
  runs over the lines in order, then comes the last flush. \<open>generateCodeTour_steps\<close>
  is the \<^verbatim>\<open>steps\<close> property of the tour that \<^verbatim>\<open>generateCodeTour\<close> returns for the
  diff text that git gave it.
\<close>

definition parse_lines :: "parser_state \<Rightarrow> string list \<Rightarrow> parser_state" where
  "parse_lines s lns = foldl loop_body s lns"

definition generateCodeTour_steps :: "string \<Rightarrow> CodeTourStep list" where
  "generateCodeTour_steps diff = final_flush (parse_lines initial_state (split diff (CHR 0x0A)))"

section \<open>The shape of an extension\<close>

text \<open>
  What the scan of \<^const>\<open>extname\<close> maintains when the characters at the indices \<open>k\<close> and
  above have been visited: an end that is set lies between \<open>k\<close> and the length of the
  path, and a dot that is set lies at an index from \<open>k\<close> on, before the end, where the
  path has a dot.
\<close>

lemma extname_loop_invariant:
  assumes "k \<le> length path"
    and "end' st = - 1 \<or> (int k \<le> end' st \<and> end' st \<le> int (length path))"
    and "startDot st = - 1 \<or>
         (int k \<le> startDot st \<and> startDot st < end' st \<and>
          path ! nat (startDot st) = CHR ''.'')"
  shows "startDot (extname_loop (rev (take k path)) st) = - 1 \<or>
         (0 \<le> startDot (extname_loop (rev (take k path)) st) \<and>
          startDot (extname_loop (rev (take k path)) st) <
            end' (extname_loop (rev (take k path)) st) \<and>
          end' (extname_loop (rev (take k path)) st) \<le> int (length path) \<and>
          path ! nat (startDot (extname_loop (rev (take k path)) st)) = CHR ''.'')"
  using assms
proof (induction k arbitrary: st)
  case 0
  then show ?case
    by auto
next
  case (Suc k)
  from Suc.prems(1) have k: "k < length path" and k': "k \<le> length path"
    by simp_all
  have unfold: "rev (take (Suc k) path) = path ! k # rev (take k path)"
    using k by (simp add: take_Suc_conv_app_nth)
  show ?case
  proof (cases "path ! k = CHR ''/''")
    case True
    show ?thesis
    proof (cases "matchedSlash st")
      case True
      have "extname_loop (rev (take (Suc k) path)) st = extname_loop (rev (take k path)) st"
        using \<open>path ! k = CHR ''/''\<close> True unfold k by simp
      moreover have "startDot (extname_loop (rev (take k path)) st) = - 1 \<or>
         (0 \<le> startDot (extname_loop (rev (take k path)) st) \<and>
          startDot (extname_loop (rev (take k path)) st) <
            end' (extname_loop (rev (take k path)) st) \<and>
          end' (extname_loop (rev (take k path)) st) \<le> int (length path) \<and>
          path ! nat (startDot (extname_loop (rev (take k path)) st)) = CHR ''.'')"
        using Suc.prems(2,3) by (intro Suc.IH [OF k']) auto
      ultimately show ?thesis
        by simp
    next
      case False
      have "extname_loop (rev (take (Suc k) path)) st = st\<lparr>startPart := int k + 1\<rparr>"
        using \<open>path ! k = CHR ''/''\<close> False unfold k by simp
      then show ?thesis
        using Suc.prems(2,3) by auto
    qed
  next
    case False
    define st1 where
      "st1 = (if end' st = - 1 then st\<lparr>end' := int k + 1, matchedSlash := False\<rparr> else st)"
    define st2 where
      "st2 = (if path ! k = CHR ''.'' then
                (if startDot st1 = - 1 then st1\<lparr>startDot := int k\<rparr>
                 else if preDotState st1 \<noteq> 1 then st1\<lparr>preDotState := 1\<rparr>
                 else st1)
              else if startDot st1 \<noteq> - 1 then st1\<lparr>preDotState := - 1\<rparr>
              else st1)"
    have step: "extname_loop (rev (take (Suc k) path)) st = extname_loop (rev (take k path)) st2"
      using False unfold k by (simp add: st1_def st2_def Let_def)
    have e1: "int k \<le> end' st1 \<and> end' st1 \<le> int (length path) \<and> int k < end' st1"
      using Suc.prems(2) k by (auto simp add: st1_def)
    have d1: "startDot st1 = - 1 \<or>
              (int (Suc k) \<le> startDot st1 \<and> startDot st1 < end' st1 \<and>
               path ! nat (startDot st1) = CHR ''.'')"
      using Suc.prems(2,3) by (auto simp add: st1_def)
    have e2: "end' st2 = end' st1"
      by (simp add: st2_def)
    have d2: "startDot st2 = - 1 \<or>
              (int k \<le> startDot st2 \<and> startDot st2 < end' st2 \<and>
               path ! nat (startDot st2) = CHR ''.'')"
      using d1 e1 by (auto simp add: st2_def)
    have "startDot (extname_loop (rev (take k path)) st2) = - 1 \<or>
         (0 \<le> startDot (extname_loop (rev (take k path)) st2) \<and>
          startDot (extname_loop (rev (take k path)) st2) <
            end' (extname_loop (rev (take k path)) st2) \<and>
          end' (extname_loop (rev (take k path)) st2) \<le> int (length path) \<and>
          path ! nat (startDot (extname_loop (rev (take k path)) st2)) = CHR ''.'')"
      using e1 e2 d2 by (intro Suc.IH [OF k']) auto
    then show ?thesis
      by (simp add: step)
  qed
qed

text \<open>Every extension is empty or starts with a dot.\<close>

lemma extname_shape: "extname path = [] \<or> (\<exists>t. extname path = CHR ''.'' # t)"
proof -
  define st where
    "st = extname_loop (rev path)
            \<lparr>startDot = - 1, startPart = 0, end' = - 1, matchedSlash = True,
             preDotState = 0\<rparr>"
  have inv: "startDot st = - 1 \<or>
        (0 \<le> startDot st \<and> startDot st < end' st \<and> end' st \<le> int (length path) \<and>
         path ! nat (startDot st) = CHR ''.'')"
    using extname_loop_invariant [of "length path" path
        "\<lparr>startDot = - 1, startPart = 0, end' = - 1, matchedSlash = True, preDotState = 0\<rparr>"]
    by (simp add: st_def)
  have res: "extname path = [] \<or> extname path = slice path (startDot st) (end' st)"
    by (simp add: extname_def st_def Let_def)
  show ?thesis
  proof (cases "startDot st = - 1")
    case True
    then have "extname path = []"
      by (simp add: extname_def st_def Let_def)
    then show ?thesis
      by simp
  next
    case False
    with inv have lo: "0 \<le> startDot st" and lt: "startDot st < end' st"
      and hi: "end' st \<le> int (length path)" and dot: "path ! nat (startDot st) = CHR ''.''"
      by simp_all
    from lo lt hi have inside: "nat (startDot st) < length path"
      by linarith
    from lt obtain m where m: "nat (end' st - startDot st) = Suc m"
      by (cases "nat (end' st - startDot st)") simp_all
    have "drop (nat (startDot st)) path =
            path ! nat (startDot st) # drop (Suc (nat (startDot st))) path"
      using inside by (simp add: Cons_nth_drop_Suc)
    then have "slice path (startDot st) (end' st) =
                 CHR ''.'' # take m (drop (Suc (nat (startDot st))) path)"
      using dot m by (simp add: slice_def)
    with res show ?thesis
      by auto
  qed
qed

section \<open>Properties of the language classifier\<close>

lemma map_of_languageMap_empty: "map_of languageMap [] = None"
  by (simp add: languageMap_def)

text \<open>
  C8. The language classifier is total and never returns the empty string; for a path
  whose lower-cased extension is not a key of the extension table, and for a path
  without extension, it returns exactly \<open>text\<close>.
\<close>

theorem getLanguageFromFileName_total:
  "getLanguageFromFileName p \<noteq> [] \<and>
   (toLowerCase (extname p) \<notin> fst ` set languageMap \<longrightarrow>
      getLanguageFromFileName p = ''text'') \<and>
   (extname p = [] \<longrightarrow> getLanguageFromFileName p = ''text'')"
proof (intro conjI impI)
  show "getLanguageFromFileName p \<noteq> []"
    by (simp add: getLanguageFromFileName_def Let_def split: option.split)
next
  assume "toLowerCase (extname p) \<notin> fst ` set languageMap"
  then have "map_of languageMap (toLowerCase (extname p)) = None"
    by (simp add: map_of_eq_None_iff)
  then show "getLanguageFromFileName p = ''text''"
    by (simp add: getLanguageFromFileName_def)
next
  assume "extname p = []"
  then have "map_of languageMap (toLowerCase (extname p)) = None"
    by (simp add: toLowerCase_def map_of_languageMap_empty)
  then show "getLanguageFromFileName p = ''text''"
    by (simp add: getLanguageFromFileName_def)
qed

theorem getLanguageFromFileName_total_witness:
  "toLowerCase (extname ''notes.XYZ'') \<notin> fst ` set languageMap \<and>
   getLanguageFromFileName ''notes.XYZ'' = ''text'' \<and>
   extname ''Makefile'' = [] \<and>
   getLanguageFromFileName ''Makefile'' = ''text''"
proof -
  have e1: "toLowerCase (extname ''notes.XYZ'') = ''.xyz''"
    by code_simp
  have h1: "toLowerCase (extname ''notes.XYZ'') \<notin> fst ` set languageMap"
    unfolding e1 by (simp add: languageMap_def)
  have h2: "extname ''Makefile'' = []"
    by code_simp
  from getLanguageFromFileName_total [of "''notes.XYZ''"] h1
  have r1: "getLanguageFromFileName ''notes.XYZ'' = ''text''"
    by blast
  from getLanguageFromFileName_total [of "''Makefile''"] h2
  have r2: "getLanguageFromFileName ''Makefile'' = ''text''"
    by blast
  from h1 h2 r1 r2 show ?thesis
    by blast
qed

section \<open>Properties of the step synthesizer\<close>

text \<open>The single step that \<^const>\<open>createSteps\<close> returns for a file that is not new.\<close>

lemma createSteps_modification:
  "createSteps a d f n False =
     [\<lparr>file' = Some f, directory = None,
       line = (if d = [] then Some n else None),
       description = generateStepDescription a d f False,
       title = None,
       selection =
         (if d = [] then None
          else Some \<lparr>sel_start = \<lparr>pos_line = n, pos_character = 1\<rparr>,
                     sel_end = \<lparr>pos_line = n + int (length d) - 1,
                                pos_character = int (length (last d)) + 1\<rparr>\<rparr>)\<rparr>]"
  by (simp add: createSteps_def Let_def)

text \<open>
  C2. A run of a new file with at least one added line gives exactly two steps, in this
  order: a step without \<open>file\<close> and without \<open>line\<close>, titled \<open>Create <filePath>\<close>, and a
  step with \<open>file\<close> the run's path, \<open>line\<close> 1, a description that ends with the fenced
  block of the added lines joined by line feeds, titled \<open>Add content to <filePath>\<close>.
\<close>

theorem createSteps_new_file:
  assumes "a \<noteq> []"
  shows "\<exists>s1 s2. createSteps a d f n True = [s1, s2] \<and>
           file' s1 = None \<and> line s1 = None \<and> selection s1 = None \<and>
           title s1 = Some (''Create '' @ f) \<and>
           file' s2 = Some f \<and> line s2 = Some 1 \<and> selection s2 = None \<and>
           description s2 =
             ''Add the following content:'' @ NL @ NL @
             fence @ getLanguageFromFileName f @ NL @ join a NL @ NL @ fence \<and>
           title s2 = Some (''Add content to '' @ f)"
  using assms by (simp add: createSteps_def)

theorem createSteps_new_file_witness:
  "[''const a = 1;'', ''const b = 2;''] \<noteq> [] \<and>
   length (createSteps [''const a = 1;'', ''const b = 2;''] [] ''new.js'' 1 True) = 2 \<and>
   map file' (createSteps [''const a = 1;'', ''const b = 2;''] [] ''new.js'' 1 True) =
     [None, Some ''new.js''] \<and>
   map line (createSteps [''const a = 1;'', ''const b = 2;''] [] ''new.js'' 1 True) =
     [None, Some 1] \<and>
   map title (createSteps [''const a = 1;'', ''const b = 2;''] [] ''new.js'' 1 True) =
     [Some ''Create new.js'', Some ''Add content to new.js'']"
proof -
  have h: "[''const a = 1;'', ''const b = 2;''] \<noteq> []"
    by simp
  from createSteps_new_file [OF h, of "[]" "''new.js''" 1]
  obtain s1 s2 where
    "createSteps [''const a = 1;'', ''const b = 2;''] [] ''new.js'' 1 True = [s1, s2]"
    "file' s1 = None" "line s1 = None" "title s1 = Some (''Create '' @ ''new.js'')"
    "file' s2 = Some ''new.js''" "line s2 = Some 1"
    "title s2 = Some (''Add content to '' @ ''new.js'')"
    by blast
  then show ?thesis
    by simp
qed

text \<open>
  C4, as the code has it. For a run of a file that is not new with at least one deleted
  line, the one step has a selection that starts at line \<open>startLine\<close>, character 1, and
  ends at line \<open>startLine + deletedLines.length - 1\<close>, character one more than the
  length of the last deleted line: the offsets count from 1, not from 0. The numbers
  are those of the program in the range where its arithmetic is exact, which the
  hypotheses state.
\<close>

theorem createSteps_selection:
  assumes "d \<noteq> []"
    and "exactNumber n"
    and "exactNumber (n + int (length d))"
    and "exactNumber (int (length (last d)) + 1)"
  shows "\<exists>st. createSteps a d f n False = [st] \<and>
           selection st =
             Some \<lparr>sel_start = \<lparr>pos_line = n, pos_character = 1\<rparr>,
                   sel_end = \<lparr>pos_line = n + int (length d) - 1,
                              pos_character = int (length (last d)) + 1\<rparr>\<rparr>"
  using assms(1) by (simp add: createSteps_modification)

theorem createSteps_selection_witness:
  "[''abc'', ''de''] \<noteq> [] \<and> exactNumber 5 \<and>
   exactNumber (5 + int (length [''abc'', ''de''])) \<and>
   exactNumber (int (length (last [''abc'', ''de''])) + 1) \<and>
   map selection (createSteps [''x''] [''abc'', ''de''] ''f.txt'' 5 False) =
     [Some \<lparr>sel_start = \<lparr>pos_line = 5, pos_character = 1\<rparr>,
            sel_end = \<lparr>pos_line = 6, pos_character = 3\<rparr>\<rparr>]"
proof -
  have h1: "[''abc'', ''de''] \<noteq> []"
    by simp
  have h2: "exactNumber 5"
    by (simp add: exactNumber_def)
  have h3: "exactNumber (5 + int (length [''abc'', ''de'']))"
    by (simp add: exactNumber_def)
  have h4: "exactNumber (int (length (last [''abc'', ''de''])) + 1)"
    by (simp add: exactNumber_def)
  from createSteps_selection [OF h1 h2 h3 h4, of "[''x'']" "''f.txt''"]
  obtain st where "createSteps [''x''] [''abc'', ''de''] ''f.txt'' 5 False = [st]"
    and "selection st =
           Some \<lparr>sel_start = \<lparr>pos_line = 5, pos_character = 1\<rparr>,
                 sel_end = \<lparr>pos_line = 5 + int (length [''abc'', ''de'']) - 1,
                            pos_character = int (length (last [''abc'', ''de''])) + 1\<rparr>\<rparr>"
    by blast
  with h1 h2 h3 h4 show ?thesis
    by simp
qed

text \<open>
  C4, as the specification states it, fails: for the deleted line \<open>abc\<close> at line 5 the
  selection runs from character 1 to character 4, not from character 0 to character 3.
\<close>

theorem createSteps_selection_zero_based_counterexample:
  "map selection (createSteps [] [''abc''] ''f.txt'' 5 False) =
     [Some \<lparr>sel_start = \<lparr>pos_line = 5, pos_character = 1\<rparr>,
            sel_end = \<lparr>pos_line = 5, pos_character = 4\<rparr>\<rparr>] \<and>
   map selection (createSteps [] [''abc''] ''f.txt'' 5 False) \<noteq>
     [Some \<lparr>sel_start = \<lparr>pos_line = 5, pos_character = 0\<rparr>,
            sel_end = \<lparr>pos_line = 5 + int (length [''abc'']) - 1,
                       pos_character = int (length (last [''abc'']))\<rparr>\<rparr>]"
  by (simp add: createSteps_modification)

text \<open>
  C6. For a run of a file that is not new with at least one deleted line, the selection
  of the step spans \<open>deletedLines.length - 1\<close> lines beyond its first. The start line
  and the start line plus the number of deleted lines are in the range where the
  arithmetic of the program is exact.
\<close>

theorem createSteps_selection_length:
  assumes "d \<noteq> []"
    and "exactNumber n"
    and "exactNumber (n + int (length d))"
  shows "\<exists>st sel. createSteps a d f n False = [st] \<and> selection st = Some sel \<and>
           pos_line (sel_end sel) - pos_line (sel_start sel) = int (length d) - 1"
  using assms(1) by (simp add: createSteps_modification)

theorem createSteps_selection_length_witness:
  "[''l1'', ''l2'', ''l3''] \<noteq> [] \<and> exactNumber 10 \<and>
   exactNumber (10 + int (length [''l1'', ''l2'', ''l3''])) \<and>
   (\<exists>st sel. createSteps [] [''l1'', ''l2'', ''l3''] ''a.py'' 10 False = [st] \<and>
      selection st = Some sel \<and>
      pos_line (sel_end sel) - pos_line (sel_start sel) = 2)"
proof -
  have h1: "[''l1'', ''l2'', ''l3''] \<noteq> []"
    by simp
  have h2: "exactNumber 10"
    by (simp add: exactNumber_def)
  have h3: "exactNumber (10 + int (length [''l1'', ''l2'', ''l3'']))"
    by (simp add: exactNumber_def)
  from createSteps_selection_length [OF h1 h2 h3, of "[]" "''a.py''"] h1 h2 h3
  show ?thesis
    by simp
qed

text \<open>
  C9. For a run of a file that is not new, the one step has a selection exactly when
  there are deleted lines and a line exactly when there are none: one of the two
  fields is set, never both and never neither.
\<close>

theorem createSteps_line_xor_selection:
  "\<exists>st. createSteps a d f n False = [st] \<and>
     (selection st \<noteq> None \<longleftrightarrow> d \<noteq> []) \<and>
     (line st \<noteq> None \<longleftrightarrow> d = []) \<and>
     (line st = None) \<noteq> (selection st = None)"
  by (simp add: createSteps_modification)

theorem createSteps_line_xor_selection_witness:
  "(\<exists>st. createSteps [''x''] [] ''f.txt'' 3 False = [st] \<and>
      line st \<noteq> None \<and> selection st = None) \<and>
   (\<exists>st. createSteps [''x''] [''y''] ''f.txt'' 3 False = [st] \<and>
      line st = None \<and> selection st \<noteq> None)"
  using createSteps_line_xor_selection [of "[''x'']" "[]" "''f.txt''" 3]
    createSteps_line_xor_selection [of "[''x'']" "[''y'']" "''f.txt''" 3]
  by auto

section \<open>Properties of the diff parser\<close>

subsection \<open>Which block of the loop body a line reaches\<close>

lemma startsWith_hunk_not_fileHeader:
  "startsWith ln ''@@'' \<Longrightarrow> \<not> startsWith ln ''diff --git''"
  by (cases ln) auto

lemma startsWith_hunk_not_newFile:
  "startsWith ln ''@@'' \<Longrightarrow> \<not> startsWith ln ''--- /dev/null''"
  by (cases ln) auto

lemma startsWith_fileHeader_not_newFile:
  "startsWith ln ''diff --git'' \<Longrightarrow> \<not> startsWith ln ''--- /dev/null''"
  by (cases ln) auto

lemma loop_body_hunkHeader:
  "startsWith ln ''@@'' \<Longrightarrow> loop_body s ln = hunkHeader_block s ln"
  by (simp add: loop_body_def fileHeader_block_def newFile_block_def
      startsWith_hunk_not_fileHeader startsWith_hunk_not_newFile)

lemma loop_body_hunkBody:
  "inHunk s \<Longrightarrow> \<not> startsWith ln ''diff --git'' \<Longrightarrow> \<not> startsWith ln ''@@'' \<Longrightarrow>
   loop_body s ln = hunkBody_block (newFile_block s ln) ln"
  by (simp add: loop_body_def fileHeader_block_def newFile_block_def)

lemma loop_body_fileHeader:
  assumes "startsWith ln ''diff --git''"
  shows "loop_body s ln = fileHeader_block s ln"
proof -
  have "\<not> startsWith ln ''@@''"
    using assms startsWith_hunk_not_fileHeader by blast
  moreover have "\<not> inHunk (fileHeader_block s ln)"
    using assms by (simp add: fileHeader_block_def Let_def split: option.split)
  ultimately show ?thesis
    using assms
    by (simp add: loop_body_def newFile_block_def startsWith_fileHeader_not_newFile)
qed

lemma parse_lines_Nil: "parse_lines s [] = s"
  by (simp add: parse_lines_def)

lemma parse_lines_Cons: "parse_lines s (ln # lns) = parse_lines (loop_body s ln) lns"
  by (simp add: parse_lines_def)

lemma parse_lines_snoc: "parse_lines s (lns @ [ln]) = loop_body (parse_lines s lns) ln"
  by (simp add: parse_lines_def)

subsection \<open>A line that starts with \<^verbatim>\<open>@@\<close> and is not a hunk header\<close>

text \<open>
  C1, as the code has it. A line that starts with \<^verbatim>\<open>@@\<close> and does not match the
  hunk-header expression leaves the cursor, the current file and the new-file flag as
  they are, but it is not without effect: a pending change run is flushed into the
  steps, the pending lines and the run start are reset, and hunk mode is entered.
\<close>

theorem malformed_hunk_header:
  assumes "startsWith ln ''@@''"
    and "regex_search hunkHeader_match_at ln = None"
  shows "currentLine (loop_body s ln) = currentLine s \<and>
         currentFile (loop_body s ln) = currentFile s \<and>
         isNewFile (loop_body s ln) = isNewFile s \<and>
         inHunk (loop_body s ln) \<and>
         changeStartLine (loop_body s ln) = 0 \<and>
         addedLines (loop_body s ln) = [] \<and>
         deletedLines (loop_body s ln) = [] \<and>
         steps (loop_body s ln) =
           (if addedLines s \<noteq> [] \<or> deletedLines s \<noteq> []
            then steps s @ createSteps (addedLines s) (deletedLines s) (currentFile s)
                             (changeStartLine s) (isNewFile s)
            else steps s)"
  using assms by (simp add: loop_body_hunkHeader hunkHeader_block_def Let_def)

theorem malformed_hunk_header_witness:
  "startsWith ''@@ bogus'' ''@@'' \<and>
   regex_search hunkHeader_match_at ''@@ bogus'' = None \<and>
   \<not> inHunk initial_state \<and>
   inHunk (loop_body initial_state ''@@ bogus'') \<and>
   currentLine (loop_body initial_state ''@@ bogus'') = currentLine initial_state"
proof -
  have h1: "startsWith ''@@ bogus'' ''@@''"
    by simp
  have h2: "regex_search hunkHeader_match_at ''@@ bogus'' = None"
    by code_simp
  have h3: "\<not> inHunk initial_state"
    by (simp add: initial_state_def)
  from malformed_hunk_header [OF h1 h2, of initial_state] h1 h2 h3
  show ?thesis
    by blast
qed

text \<open>
  C1, as the specification states it, fails: the line \<^verbatim>\<open>@@ bogus\<close> starts with
  \<^verbatim>\<open>@@\<close> and does not match the expression, and after it the parser, which was not
  in hunk mode, is.
\<close>

theorem malformed_hunk_header_enters_hunk_counterexample:
  "startsWith ''@@ bogus'' ''@@'' \<and>
   regex_search hunkHeader_match_at ''@@ bogus'' = None \<and>
   \<not> inHunk initial_state \<and>
   inHunk (loop_body initial_state ''@@ bogus'')"
  by code_simp

subsection \<open>The scenario of a one-line modification\<close>

text \<open>
  C3. For the diff text of scenario A the parser and the synthesizer give exactly one
  step: \<open>file\<close> is \<open>file.txt\<close>, there is no \<open>line\<close>, the selection starts and ends at
  line 1, and the description holds a fenced block tagged \<open>text\<close> with the body
  \<open>new content\<close>.
\<close>

theorem scenario_A:
  "generateCodeTour_steps
     (''diff --git a/file.txt b/file.txt'' @ NL @ ''--- a/file.txt'' @ NL @
      ''+++ b/file.txt'' @ NL @ ''@@ -1,1 +1,1 @@'' @ NL @ ''-old content'' @ NL @
      ''+new content'' @ NL) =
   [\<lparr>file' = Some ''file.txt'', directory = None, line = None,
     description = ''Replace with:'' @ NL @ NL @ ''----'' @ NL @ NL @
                   fence @ ''text'' @ NL @ ''new content'' @ NL @ fence,
     title = None,
     selection = Some \<lparr>sel_start = \<lparr>pos_line = 1, pos_character = 1\<rparr>,
                       sel_end = \<lparr>pos_line = 1, pos_character = 12\<rparr>\<rparr>\<rparr>]"
  by code_simp

subsection \<open>The start line of a flushed run\<close>

text \<open>
  C5 (every change run that the parser flushes has a start line of at least 1) fails
  on the diff of a deleted file. Its hunk header is \<^verbatim>\<open>@@ -1,2 +0,0 @@\<close>, so the cursor
  is 0 while the deleted lines are collected and the run start stays 0. The flush at
  the context line after the hunk hands this 0 to \<^const>\<open>createSteps\<close>, and so does the
  flush at the header of a file that follows: the selection of the step starts at
  line 0. Without the last line feed the same run reaches the flush at the end of the
  input, whose fallback hands over 1.
\<close>

theorem deleted_file_start_line_zero:
  "map selection (generateCodeTour_steps
     (''diff --git a/old.txt b/old.txt'' @ NL @ ''deleted file mode 100644'' @ NL @
      ''--- a/old.txt'' @ NL @ ''+++ /dev/null'' @ NL @ ''@@ -1,2 +0,0 @@'' @ NL @
      ''-line1'' @ NL @ ''-line2'' @ NL)) =
     [Some \<lparr>sel_start = \<lparr>pos_line = 0, pos_character = 1\<rparr>,
            sel_end = \<lparr>pos_line = 1, pos_character = 6\<rparr>\<rparr>] \<and>
   map selection (generateCodeTour_steps
     (''diff --git a/old.txt b/old.txt'' @ NL @ ''deleted file mode 100644'' @ NL @
      ''--- a/old.txt'' @ NL @ ''+++ /dev/null'' @ NL @ ''@@ -1,2 +0,0 @@'' @ NL @
      ''-line1'' @ NL @ ''-line2'' @ NL @
      ''diff --git a/other.txt b/other.txt'')) =
     [Some \<lparr>sel_start = \<lparr>pos_line = 0, pos_character = 1\<rparr>,
            sel_end = \<lparr>pos_line = 1, pos_character = 6\<rparr>\<rparr>] \<and>
   map selection (generateCodeTour_steps
     (''diff --git a/old.txt b/old.txt'' @ NL @ ''deleted file mode 100644'' @ NL @
      ''--- a/old.txt'' @ NL @ ''+++ /dev/null'' @ NL @ ''@@ -1,2 +0,0 @@'' @ NL @
      ''-line1'' @ NL @ ''-line2'')) =
     [Some \<lparr>sel_start = \<lparr>pos_line = 1, pos_character = 1\<rparr>,
            sel_end = \<lparr>pos_line = 2, pos_character = 6\<rparr>\<rparr>]"
  by code_simp

subsection \<open>The cursor inside a hunk\<close>

lemma newFile_block_cursor:
  "currentLine (newFile_block s ln) = currentLine s \<and>
   inHunk (newFile_block s ln) = inHunk s"
  by (simp add: newFile_block_def)

lemma startsWith_one:
  "startsWith ln ''+++'' \<Longrightarrow> startsWith ln ''+''"
  "startsWith ln ''---'' \<Longrightarrow> startsWith ln ''-''"
  "startsWith ln ''+'' \<Longrightarrow> \<not> startsWith ln ''-'' \<and> \<not> startsWith ln [CHR 0x5C]"
  "startsWith ln ''-'' \<Longrightarrow> \<not> startsWith ln [CHR 0x5C]"
  by (cases ln; auto)+

text \<open>
  What the loop body does to the cursor for a line of a hunk, that is, in hunk mode
  and for a line that starts neither a file header nor a hunk header. Inside a hunk
  of git's output every line that starts with \<open>+\<close> is an added line and every line
  that starts with \<open>-\<close> is a deleted line. The cursor advances by 1 for an added line
  and for a context line and stays for the marker that starts with a backslash. For a
  deleted line it stays only when the line does not start with \<^verbatim>\<open>---\<close>; a deleted line
  that starts with \<^verbatim>\<open>---\<close> advances it by 1.
\<close>

lemma hunk_line_cursor:
  assumes "inHunk s" and "\<not> startsWith ln ''diff --git''" and "\<not> startsWith ln ''@@''"
    and "exactNumber (currentLine s)" and "exactNumber (currentLine s + 1)"
  shows "inHunk (loop_body s ln)"
    and "startsWith ln ''+'' \<Longrightarrow> currentLine (loop_body s ln) = currentLine s + 1"
    and "startsWith ln ''-'' \<Longrightarrow> \<not> startsWith ln ''---'' \<Longrightarrow>
         currentLine (loop_body s ln) = currentLine s"
    and "startsWith ln ''---'' \<Longrightarrow> currentLine (loop_body s ln) = currentLine s + 1"
    and "startsWith ln [CHR 0x5C] \<Longrightarrow> currentLine (loop_body s ln) = currentLine s"
    and "\<not> startsWith ln ''+'' \<Longrightarrow> \<not> startsWith ln ''-'' \<Longrightarrow> \<not> startsWith ln [CHR 0x5C] \<Longrightarrow>
         currentLine (loop_body s ln) = currentLine s + 1"
proof -
  have body: "loop_body s ln = hunkBody_block (newFile_block s ln) ln"
    using assms(1-3) by (rule loop_body_hunkBody)
  show "inHunk (loop_body s ln)"
    using assms(1) by (simp add: body hunkBody_block_def newFile_block_def Let_def)
  show "currentLine (loop_body s ln) = currentLine s + 1" if "startsWith ln ''+''"
    using that startsWith_one [of ln]
    by (auto simp add: body hunkBody_block_def newFile_block_def Let_def)
  show "currentLine (loop_body s ln) = currentLine s"
    if "startsWith ln ''-''" "\<not> startsWith ln ''---''"
    using that startsWith_one [of ln]
    by (auto simp add: body hunkBody_block_def newFile_block_def Let_def)
  show "currentLine (loop_body s ln) = currentLine s + 1" if "startsWith ln ''---''"
    using that startsWith_one [of ln]
    by (auto simp add: body hunkBody_block_def newFile_block_def Let_def)
  show "currentLine (loop_body s ln) = currentLine s" if "startsWith ln [CHR 0x5C]"
    using that startsWith_one [of ln]
    by (auto simp add: body hunkBody_block_def newFile_block_def Let_def)
  show "currentLine (loop_body s ln) = currentLine s + 1"
    if "\<not> startsWith ln ''+''" "\<not> startsWith ln ''-''" "\<not> startsWith ln [CHR 0x5C]"
    using that startsWith_one [of ln]
    by (auto simp add: body hunkBody_block_def newFile_block_def Let_def)
qed

text \<open>
  C7 (inside a hunk the cursor advances by 1 for an added line and for a context line
  and by 0 for a deleted line and for the marker that starts with a backslash) fails
  on a deleted line whose content starts with two dashes. The hunk below deletes the
  line \<^verbatim>\<open>-- old\<close> after \<open>a\<close> and replaces \<open>c\<close> by \<open>d\<close>; the result has the lines
  \<open>a\<close>, \<open>b\<close>, \<open>d\<close>. After the context line \<open>a\<close> the cursor is 2. The deleted line
  \<^verbatim>\<open>--- old\<close> fails the test of line 118, is taken for a context line, is not collected
  and moves the cursor to 3, where the deleted line \<^verbatim>\<open>-x\<close> in its place leaves the
  cursor at 2 and is collected. In the tour the deletion has no step, and the step
  for the replacement selects line 4 of a file in which \<open>d\<close> is line 3.
\<close>

theorem deleted_line_with_dashes_advances_cursor:
  "inHunk (parse_lines initial_state
     [''diff --git a/q.sql b/q.sql'', ''--- a/q.sql'', ''+++ b/q.sql'',
      ''@@ -1,4 +1,3 @@'', '' a'']) \<and>
   currentLine (parse_lines initial_state
     [''diff --git a/q.sql b/q.sql'', ''--- a/q.sql'', ''+++ b/q.sql'',
      ''@@ -1,4 +1,3 @@'', '' a'']) = 2 \<and>
   currentLine (parse_lines initial_state
     [''diff --git a/q.sql b/q.sql'', ''--- a/q.sql'', ''+++ b/q.sql'',
      ''@@ -1,4 +1,3 @@'', '' a'', ''--- old'']) = 3 \<and>
   deletedLines (parse_lines initial_state
     [''diff --git a/q.sql b/q.sql'', ''--- a/q.sql'', ''+++ b/q.sql'',
      ''@@ -1,4 +1,3 @@'', '' a'', ''--- old'']) = [] \<and>
   currentLine (parse_lines initial_state
     [''diff --git a/q.sql b/q.sql'', ''--- a/q.sql'', ''+++ b/q.sql'',
      ''@@ -1,4 +1,3 @@'', '' a'', ''-x'']) = 2 \<and>
   deletedLines (parse_lines initial_state
     [''diff --git a/q.sql b/q.sql'', ''--- a/q.sql'', ''+++ b/q.sql'',
      ''@@ -1,4 +1,3 @@'', '' a'', ''-x'']) = [''x''] \<and>
   map selection (generateCodeTour_steps
     (''diff --git a/q.sql b/q.sql'' @ NL @ ''--- a/q.sql'' @ NL @ ''+++ b/q.sql'' @ NL @
      ''@@ -1,4 +1,3 @@'' @ NL @ '' a'' @ NL @ ''--- old'' @ NL @ '' b'' @ NL @
      ''-c'' @ NL @ ''+d'' @ NL)) =
     [Some \<lparr>sel_start = \<lparr>pos_line = 4, pos_character = 1\<rparr>,
            sel_end = \<lparr>pos_line = 4, pos_character = 2\<rparr>\<rparr>]"
  by code_simp

subsection \<open>Changes collected before the first file header\<close>

lemma loop_body_currentFile:
  "\<not> startsWith ln ''diff --git'' \<Longrightarrow> currentFile (loop_body s ln) = currentFile s"
  by (simp add: loop_body_def fileHeader_block_def newFile_block_def hunkHeader_block_def
      hunkBody_block_def Let_def split: option.split)

lemma parse_lines_currentFile:
  "\<forall>l \<in> set lns. \<not> startsWith l ''diff --git'' \<Longrightarrow>
   currentFile (parse_lines s lns) = currentFile s"
  by (induction lns arbitrary: s) (simp_all add: parse_lines_Nil parse_lines_Cons loop_body_currentFile)

lemma fileHeader_block_no_file:
  assumes "startsWith hdr ''diff --git''" and "currentFile s = []"
  shows "steps (fileHeader_block s hdr) = steps s \<and>
         addedLines (fileHeader_block s hdr) = [] \<and>
         deletedLines (fileHeader_block s hdr) = []"
  using assms by (simp add: fileHeader_block_def Let_def split: option.split)

text \<open>
  C10, as the code has it. When no line of \<open>pre\<close> starts a file header, the current file
  is still empty after \<open>pre\<close>; a file header that comes next emits no step and drops
  the pending added and deleted lines, and the end of the input after \<open>pre\<close> emits no
  step either.
\<close>

theorem headerless_changes_dropped:
  assumes "\<forall>l \<in> set pre. \<not> startsWith l ''diff --git''"
    and "startsWith hdr ''diff --git''"
  shows "currentFile (parse_lines initial_state pre) = [] \<and>
         steps (parse_lines initial_state (pre @ [hdr])) =
           steps (parse_lines initial_state pre) \<and>
         addedLines (parse_lines initial_state (pre @ [hdr])) = [] \<and>
         deletedLines (parse_lines initial_state (pre @ [hdr])) = [] \<and>
         final_flush (parse_lines initial_state pre) = steps (parse_lines initial_state pre)"
proof -
  have nofile: "currentFile (parse_lines initial_state pre) = []"
    using parse_lines_currentFile [OF assms(1), of initial_state]
    by (simp add: initial_state_def)
  have "parse_lines initial_state (pre @ [hdr]) =
          fileHeader_block (parse_lines initial_state pre) hdr"
    by (simp add: parse_lines_snoc loop_body_fileHeader [OF assms(2)])
  with fileHeader_block_no_file [OF assms(2) nofile]
  have hdr: "steps (parse_lines initial_state (pre @ [hdr])) =
               steps (parse_lines initial_state pre) \<and>
             addedLines (parse_lines initial_state (pre @ [hdr])) = [] \<and>
             deletedLines (parse_lines initial_state (pre @ [hdr])) = []"
    by simp
  have fin: "final_flush (parse_lines initial_state pre) = steps (parse_lines initial_state pre)"
    using nofile by (simp add: final_flush_def)
  from nofile hdr fin show ?thesis
    by simp
qed

theorem headerless_changes_dropped_witness:
  "\<not> startsWith ''@@ -1 +1 @@'' ''diff --git'' \<and> \<not> startsWith ''+x'' ''diff --git'' \<and>
   startsWith ''diff --git a/f.txt b/f.txt'' ''diff --git'' \<and>
   addedLines (parse_lines initial_state [''@@ -1 +1 @@'', ''+x'']) = [''x''] \<and>
   steps (parse_lines initial_state [''@@ -1 +1 @@'', ''+x'']) = [] \<and>
   steps (parse_lines initial_state
            ([''@@ -1 +1 @@'', ''+x''] @ [''diff --git a/f.txt b/f.txt''])) = [] \<and>
   addedLines (parse_lines initial_state
            ([''@@ -1 +1 @@'', ''+x''] @ [''diff --git a/f.txt b/f.txt''])) = [] \<and>
   final_flush (parse_lines initial_state [''@@ -1 +1 @@'', ''+x'']) = []"
proof -
  have h1: "\<forall>l \<in> set [''@@ -1 +1 @@'', ''+x'']. \<not> startsWith l ''diff --git''"
    by simp
  have h2: "startsWith ''diff --git a/f.txt b/f.txt'' ''diff --git''"
    by simp
  have p: "addedLines (parse_lines initial_state [''@@ -1 +1 @@'', ''+x'']) = [''x'']"
    by code_simp
  have q: "steps (parse_lines initial_state [''@@ -1 +1 @@'', ''+x'']) = []"
    by code_simp
  from headerless_changes_dropped [OF h1 h2] h1 h2 p q show ?thesis
    by simp
qed

text \<open>
  C10, as the claim states it, fails: changes collected before any file header are not
  always discarded. In the text below no line starts a file header; the empty last
  line is a context line of the hunk, and its flush emits a step whose file is the
  empty path.
\<close>

theorem headerless_changes_emitted_counterexample:
  "map file' (generateCodeTour_steps (''@@ -1 +1 @@'' @ NL @ ''+x'' @ NL)) = [Some []] \<and>
   map line (generateCodeTour_steps (''@@ -1 +1 @@'' @ NL @ ''+x'' @ NL)) = [Some 1]"
  by code_simp

end
